theory Spec2Isabelle
  imports Main "HOL-Library.Char_ord" "HOL-Library.List_Lexorder"
begin

section \<open>Session reservations: the data model\<close>

text \<open>
  The server actions \<open>cleanupExpiredReservations\<close> and \<open>isSessionAvailable\<close> work on one
  collection of Session documents. Time-of-day values are stored and compared as strings;
  the store orders strings by their bytes, which is the lexicographic order on
  \<^typ>\<open>string\<close> used here. A JavaScript \<open>Date\<close> is the number of milliseconds since the
  epoch.
\<close>

type_synonym instant = int

text \<open>
  Modelled from the spec: the enum \<open>SessionStatus\<close> of \<open>@/types/session\<close> is not among the
  sources. The spec names the statuses reserved and confirmed; any further member of the
  enum is \<open>OTHER\<close> with its name.
\<close>

datatype SessionStatus = RESERVED | CONFIRMED | OTHER string

text \<open>
  The fields of a Session document that the two actions read. \<open>session_id\<close> is the
  document's \<open>_id\<close>; \<open>reservationExpires\<close> is absent on a document that carries none.
\<close>

record session =
  session_id :: nat
  mentorId :: string
  menteeId :: string
  date :: string
  startTime :: string
  endTime :: string
  status :: SessionStatus
  reservationExpires :: "instant option"

text \<open>A thrown value, and the values the returned object literals hold.\<close>

datatype js_error = Error string

datatype js_value = Bool bool | Str string | Num int | Date instant | Err js_error | Undefined

type_synonym js_object = "(string \<times> js_value) list"

definition field :: "js_object \<Rightarrow> string \<Rightarrow> js_value option" where
  "field obj k = map_of obj k"

fun date_value :: "instant option \<Rightarrow> js_value" where
  "date_value None = Undefined"
| "date_value (Some t) = Date t"

section \<open>The store and its primitives\<close>

text \<open>
  The world an action runs in: the documents of the collection in the order a query
  returns them, the log of the calls made to the store, and for each primitive the error
  it throws, if it does. An awaited call either throws (\<open>Inl\<close>) or yields a value
  (\<open>Inr\<close>).
\<close>

datatype db_call = Connect | Find | DeleteMany

record world =
  sessions :: "session list"
  calls :: "db_call list"
  connect_fault :: "js_error option"
  find_fault :: "js_error option"
  delete_fault :: "js_error option"

type_synonym 'a action = "world \<Rightarrow> (js_error + 'a) \<times> world"

definition logged :: "db_call \<Rightarrow> world \<Rightarrow> world" where
  "logged c w = w\<lparr>calls := calls w @ [c]\<rparr>"

definition connectDB :: "unit action" where
  "connectDB w =
     (case connect_fault w of
        Some err \<Rightarrow> (Inl err, logged Connect w)
      | None \<Rightarrow> (Inr (), logged Connect w))"

definition Session_find :: "(session \<Rightarrow> bool) \<Rightarrow> (session list) action" where
  "Session_find q w =
     (case find_fault w of
        Some err \<Rightarrow> (Inl err, logged Find w)
      | None \<Rightarrow> (Inr (filter q (sessions w)), logged Find w))"

text \<open>
  \<open>deleteMany\<close> removes every document the filter matches and reports how many. A call
  that throws is taken to leave the collection as it was.
\<close>

definition Session_deleteMany :: "(session \<Rightarrow> bool) \<Rightarrow> nat action" where
  "Session_deleteMany q w =
     (case delete_fault w of
        Some err \<Rightarrow> (Inl err, logged DeleteMany w)
      | None \<Rightarrow>
          (Inr (length (filter q (sessions w))),
           logged DeleteMany (w\<lparr>sessions := filter (\<lambda>x. \<not> q x) (sessions w)\<rparr>)))"

definition return_js :: "'a \<Rightarrow> 'a action" where
  "return_js v w = (Inr v, w)"

definition await :: "'a action \<Rightarrow> ('a \<Rightarrow> 'b action) \<Rightarrow> 'b action" where
  "await m k w =
     (case m w of
        (Inl err, w') \<Rightarrow> (Inl err, w')
      | (Inr v, w') \<Rightarrow> k v w')"

text \<open>\<open>try { body } catch (error) { return handler error }\<close>; the handlers here only log.\<close>

definition try_catch :: "'a action \<Rightarrow> (js_error \<Rightarrow> 'a) \<Rightarrow> 'a action" where
  "try_catch body handler w =
     (case body w of
        (Inl err, w') \<Rightarrow> (Inr (handler err), w')
      | (Inr v, w') \<Rightarrow> (Inr v, w'))"

section \<open>cleanupExpiredReservations\<close>

text \<open>The filter \<open>{ reservationExpires: { $lt: now }, status: RESERVED }\<close>.\<close>

definition expired_reservation :: "instant \<Rightarrow> session \<Rightarrow> bool" where
  "expired_reservation now x =
     ((case reservationExpires x of None \<Rightarrow> False | Some t \<Rightarrow> t < now)
      \<and> status x = RESERVED)"

text \<open>\<open>result.deletedCount || 0\<close>\<close>

definition or_zero :: "nat \<Rightarrow> int" where
  "or_zero n = (if n = 0 then 0 else int n)"

definition cleanup_body :: "instant \<Rightarrow> js_object action" where
  "cleanup_body now =
     await connectDB (\<lambda>_.
     await (Session_find (expired_reservation now)) (\<lambda>sessionsToCleanup.
       if length sessionsToCleanup > 0 then
         await (Session_deleteMany
                  (\<lambda>x. session_id x \<in> set (map session_id sessionsToCleanup))) (\<lambda>deletedCount.
           return_js
             [(''success'', Bool True),
              (''deletedCount'', Num (or_zero deletedCount)),
              (''totalProcessed'', Num (int (length sessionsToCleanup)))])
       else
         return_js
           [(''success'', Bool True),
            (''deletedCount'', Num 0),
            (''totalProcessed'', Num 0)]))"

definition cleanupExpiredReservations :: "instant \<Rightarrow> js_object action" where
  "cleanupExpiredReservations now =
     try_catch (cleanup_body now)
       (\<lambda>err. [(''success'', Bool False), (''error'', Err err)])"

section \<open>isSessionAvailable\<close>

text \<open>\<open>slotInfo.split("_")\<close>: the pieces between underscores, empty pieces included.\<close>

fun split_underscore :: "string \<Rightarrow> string list" where
  "split_underscore [] = [[]]"
| "split_underscore (c # cs) =
     (if c = CHR ''_'' then [] # split_underscore cs
      else (case split_underscore cs of
              [] \<Rightarrow> [[c]]
            | p # ps \<Rightarrow> (c # p) # ps))"

text \<open>Array destructuring: a position beyond the array is \<open>undefined\<close>.\<close>

definition element :: "'a list \<Rightarrow> nat \<Rightarrow> 'a option" where
  "element xs i = (if i < length xs then Some (xs ! i) else None)"

text \<open>\<open>!s\<close> for a string that may be undefined.\<close>

fun falsy :: "string option \<Rightarrow> bool" where
  "falsy None = True"
| "falsy (Some s) = (s = [])"

text \<open>
  The three-way disjunction of the query, for a stored session \<open>x\<close> and the requested
  start and end.
\<close>

definition overlap_query :: "string \<Rightarrow> string \<Rightarrow> session \<Rightarrow> bool" where
  "overlap_query sTime eTime x =
     ((startTime x \<le> sTime \<and> endTime x > sTime)
      \<or> (startTime x < eTime \<and> endTime x \<ge> eTime)
      \<or> (startTime x \<ge> sTime \<and> endTime x \<le> eTime))"

text \<open>The status half of the query: confirmed, or reserved with an expiry after \<open>now\<close>.\<close>

definition blocking_status :: "instant \<Rightarrow> session \<Rightarrow> bool" where
  "blocking_status now x =
     (status x = CONFIRMED
      \<or> (status x = RESERVED
          \<and> (case reservationExpires x of None \<Rightarrow> False | Some t \<Rightarrow> t > now)))"

definition conflict_query ::
    "string \<Rightarrow> string \<Rightarrow> string \<Rightarrow> string \<Rightarrow> instant \<Rightarrow> session \<Rightarrow> bool" where
  "conflict_query mId dateStr sTime eTime now x =
     (mentorId x = mId \<and> date x = dateStr
      \<and> overlap_query sTime eTime x \<and> blocking_status now x)"

text \<open>\<open>reservedSessions.find(...)\<close> behind \<open>if (userId)\<close>.\<close>

fun userReservedSession :: "string option \<Rightarrow> session list \<Rightarrow> session option" where
  "userReservedSession None reservedSessions = None"
| "userReservedSession (Some u) reservedSessions =
     (if u = [] then None else find (\<lambda>x. menteeId x = u) reservedSessions)"

text \<open>What the action answers once the query has returned \<open>existingSessions\<close>.\<close>

definition verdict :: "string option \<Rightarrow> session list \<Rightarrow> js_object" where
  "verdict userId existingSessions =
     (if length existingSessions = 0 then [(''available'', Bool True)]
      else if length (filter (\<lambda>x. status x = CONFIRMED) existingSessions) > 0 then
        [(''available'', Bool False), (''reason'', Str ''This time slot is already booked'')]
      else
        (case filter (\<lambda>x. status x = RESERVED) existingSessions of
           [] \<Rightarrow> [(''available'', Bool True)]
         | first # others \<Rightarrow>
             (case userReservedSession userId (first # others) of
                Some own \<Rightarrow>
                  [(''available'', Bool True),
                   (''reservedForCurrentUser'', Bool True),
                   (''reservationExpires'', date_value (reservationExpires own))]
              | None \<Rightarrow>
                  [(''available'', Bool False),
                   (''reason'', Str ''This time slot is temporarily reserved''),
                   (''expiresAt'', date_value (reservationExpires first))])))"

definition invalid_slot :: js_object where
  "invalid_slot = [(''available'', Bool False), (''reason'', Str ''Invalid slot information'')]"

definition availability_body :: "instant \<Rightarrow> string \<Rightarrow> string option \<Rightarrow> js_object action" where
  "availability_body now slotInfo userId =
     await connectDB (\<lambda>_.
       let parts = split_underscore slotInfo in
       (case (element parts 0, element parts 1, element parts 2, element parts 3) of
          (Some mId, Some dateStr, Some sTime, Some eTime) \<Rightarrow>
            if mId = [] \<or> dateStr = [] \<or> sTime = [] \<or> eTime = [] then return_js invalid_slot
            else
              await (Session_find (conflict_query mId dateStr sTime eTime now))
                (\<lambda>existingSessions. return_js (verdict userId existingSessions))
        | _ \<Rightarrow> return_js invalid_slot))"

definition isSessionAvailable :: "instant \<Rightarrow> string \<Rightarrow> string option \<Rightarrow> js_object action" where
  "isSessionAvailable now slotInfo userId =
     try_catch (availability_body now slotInfo userId)
       (\<lambda>err. [(''available'', Bool False), (''reason'', Str ''Error checking availability'')])"

section \<open>Overlap of time ranges\<close>

text \<open>
  A session occupies the instants from its start up to, not including, its end. Two ranges
  overlap when they share an instant; the latest start is then such an instant.
\<close>

definition ranges_overlap :: "string \<Rightarrow> string \<Rightarrow> string \<Rightarrow> string \<Rightarrow> bool" where
  "ranges_overlap s1 e1 s2 e2 = (max s1 s2 < min e1 e2)"

section \<open>A small collection to run the actions on\<close>

text \<open>
  One mentor, one day, the clock at 1000: a live hold from nine to ten, a confirmed booking
  from ten to eleven, and a hold from eleven to twelve that lapsed at 500.
\<close>

definition slot_live :: session where
  "slot_live = \<lparr>session_id = 1, mentorId = ''m1'', menteeId = ''u1'', date = ''2025-03-01'',
     startTime = ''09:00'', endTime = ''10:00'', status = RESERVED,
     reservationExpires = Some 2000\<rparr>"

definition slot_booked :: session where
  "slot_booked = \<lparr>session_id = 2, mentorId = ''m1'', menteeId = ''u2'', date = ''2025-03-01'',
     startTime = ''10:00'', endTime = ''11:00'', status = CONFIRMED,
     reservationExpires = None\<rparr>"

definition slot_lapsed :: session where
  "slot_lapsed = \<lparr>session_id = 3, mentorId = ''m1'', menteeId = ''u3'', date = ''2025-03-01'',
     startTime = ''11:00'', endTime = ''12:00'', status = RESERVED,
     reservationExpires = Some 500\<rparr>"

definition example_world :: world where
  "example_world = \<lparr>sessions = [slot_live, slot_booked, slot_lapsed], calls = [],
     connect_fault = None, find_fault = None, delete_fault = None\<rparr>"

definition offline_world :: world where
  "offline_world = example_world\<lparr>connect_fault := Some (Error ''connection refused'')\<rparr>"

text \<open>A collection whose one record, a confirmed booking, runs from twelve back to eight.\<close>

definition slot_reversed :: session where
  "slot_reversed = slot_booked\<lparr>startTime := ''12:00'', endTime := ''08:00''\<rparr>"

definition reversed_world :: world where
  "reversed_world = example_world\<lparr>sessions := [slot_reversed]\<rparr>"

lemmas examples = slot_live_def slot_booked_def slot_lapsed_def example_world_def

section \<open>Running the actions\<close>

text \<open>
  With the store answering and a slot descriptor of four non-empty pieces, the availability
  check is one connect, one query, and the verdict on what the query returned.
\<close>

lemma availability_run:
  assumes "connect_fault w = None" and "find_fault w = None"
    and "split_underscore slotInfo = mId # dateStr # sTime # eTime # rest"
    and "mId \<noteq> []" and "dateStr \<noteq> []" and "sTime \<noteq> []" and "eTime \<noteq> []"
  shows "isSessionAvailable now slotInfo userId w =
           (Inr (verdict userId (filter (conflict_query mId dateStr sTime eTime now) (sessions w))),
            w\<lparr>calls := calls w @ [Connect, Find]\<rparr>)"
  using assms
  by (simp add: isSessionAvailable_def availability_body_def try_catch_def await_def
      connectDB_def Session_find_def return_js_def logged_def element_def)

lemma verdict_empty: "verdict userId [] = [(''available'', Bool True)]"
  by (simp add: verdict_def)

section \<open>The overlap predicate of the query\<close>

lemma ranges_overlap_shared_instant:
  "ranges_overlap s1 e1 s2 e2 \<longleftrightarrow> (\<exists>t. s1 \<le> t \<and> t < e1 \<and> s2 \<le> t \<and> t < e2)"
  unfolding ranges_overlap_def
proof
  assume "max s1 s2 < min e1 e2"
  then have "s1 \<le> max s1 s2 \<and> max s1 s2 < e1 \<and> s2 \<le> max s1 s2 \<and> max s1 s2 < e2"
    by simp
  then show "\<exists>t. s1 \<le> t \<and> t < e1 \<and> s2 \<le> t \<and> t < e2" by blast
next
  assume "\<exists>t. s1 \<le> t \<and> t < e1 \<and> s2 \<le> t \<and> t < e2"
  then obtain t where "s1 \<le> t" "t < e1" "s2 \<le> t" "t < e2" by blast
  then show "max s1 s2 < min e1 e2" by (auto intro: le_less_trans)
qed

text \<open>
  Claim C1, as amended. For a stored session and a requested slot that each start strictly
  before they end (in the string order the store compares times by), the three-way
  disjunction of the query holds exactly when the two ranges overlap: it is false for every
  such pair that does not overlap and true for every such pair that does.
\<close>

theorem overlap_query_iff_ranges_overlap:
  assumes "startTime x < endTime x" and "sTime < eTime"
  shows "overlap_query sTime eTime x = ranges_overlap (startTime x) (endTime x) sTime eTime"
  using assms unfolding overlap_query_def ranges_overlap_def
  by (auto simp: max_def min_def)

theorem overlap_query_iff_ranges_overlap_witness:
  "startTime slot_booked < endTime slot_booked \<and> ''10:30'' < ''11:30''
   \<and> overlap_query ''10:30'' ''11:30'' slot_booked
   \<and> ranges_overlap ''10:00'' ''11:00'' ''10:30'' ''11:30''"
proof -
  have h1: "startTime slot_booked < endTime slot_booked" by (simp add: slot_booked_def)
  have h2: "''10:30'' < ''11:30''" by simp
  show ?thesis
    using h1 h2 overlap_query_iff_ranges_overlap [OF h1 h2]
    by (simp add: slot_booked_def ranges_overlap_def)
qed

text \<open>
  Claim C1 as stated, for every stored session and every requested slot, fails where a range
  holds no instant. The query matches the booking from ten to eleven against a requested
  slot that starts and ends at ten, and against one that runs from half past ten back to
  nine; it matches a stored record that runs from twelve back to eight against the slot
  from nine to ten. None of these pairs shares an instant.
\<close>

theorem overlap_query_counterexample:
  "overlap_query ''10:00'' ''10:00'' slot_booked
   \<and> \<not> ranges_overlap (startTime slot_booked) (endTime slot_booked) ''10:00'' ''10:00''
   \<and> overlap_query ''10:30'' ''09:00'' slot_booked
   \<and> \<not> ranges_overlap (startTime slot_booked) (endTime slot_booked) ''10:30'' ''09:00''
   \<and> overlap_query ''09:00'' ''10:00'' (slot_booked\<lparr>startTime := ''12:00'', endTime := ''08:00''\<rparr>)
   \<and> \<not> ranges_overlap ''12:00'' ''08:00'' ''09:00'' ''10:00''"
  by (simp add: overlap_query_def ranges_overlap_def slot_booked_def)

section \<open>Expired holds\<close>

text \<open>
  Whatever the collection holds and whatever the clock reads, if every session of the
  requested mentor and date that the query's overlap test matches against the requested
  slot is a hold whose expiry is not after the clock, the query returns nothing and the
  check answers \<open>{ available: true }\<close>.
\<close>

lemma unmatched_slot_is_available:
  assumes "connect_fault w = None" and "find_fault w = None"
    and "split_underscore slotInfo = mId # dateStr # sTime # eTime # rest"
    and "mId \<noteq> []" and "dateStr \<noteq> []" and "sTime \<noteq> []" and "eTime \<noteq> []"
    and "\<forall>x \<in> set (sessions w).
           mentorId x = mId \<and> date x = dateStr \<and> overlap_query sTime eTime x \<longrightarrow>
           status x = RESERVED \<and> (\<exists>t. reservationExpires x = Some t \<and> t \<le> now)"
  shows "fst (isSessionAvailable now slotInfo userId w) = Inr [(''available'', Bool True)]"
proof -
  have "filter (conflict_query mId dateStr sTime eTime now) (sessions w) = []"
    using assms(8) by (auto simp: filter_empty_conv conflict_query_def blocking_status_def)
  then show ?thesis
    using availability_run[OF assms(1-7), of now userId] by (simp add: verdict_empty)
qed

lemma matched_proper_ranges_overlap:
  assumes "overlap_query sTime eTime x" and "startTime x < endTime x" and "sTime < eTime"
  shows "ranges_overlap (startTime x) (endTime x) sTime eTime"
  using assms unfolding overlap_query_def ranges_overlap_def
  by (auto simp: max_def min_def)

text \<open>
  Claim C2, as amended. For every state of the collection and every clock reading, if the
  requested slot starts strictly before it ends, every stored session of the requested
  mentor and date starts strictly before it ends (times compared as strings), and every
  session of the requested mentor and date whose time range overlaps the requested slot has
  status reserved with an expiry not after the clock, then \<open>isSessionAvailable\<close> returns
  \<open>{ available: true }\<close>: an expired hold never makes a slot unavailable. The store is
  taken to answer the connect and the query, and the descriptor to have its four pieces.
\<close>

theorem expired_reservation_never_blocks_on_ranges:
  assumes "connect_fault w = None" and "find_fault w = None"
    and "split_underscore slotInfo = mId # dateStr # sTime # eTime # rest"
    and "mId \<noteq> []" and "dateStr \<noteq> []" and "sTime \<noteq> []" and "eTime \<noteq> []"
    and "sTime < eTime"
    and "\<forall>x \<in> set (sessions w).
           mentorId x = mId \<and> date x = dateStr \<longrightarrow> startTime x < endTime x"
    and "\<forall>x \<in> set (sessions w).
           mentorId x = mId \<and> date x = dateStr
           \<and> ranges_overlap (startTime x) (endTime x) sTime eTime \<longrightarrow>
           status x = RESERVED \<and> (\<exists>t. reservationExpires x = Some t \<and> t \<le> now)"
  shows "fst (isSessionAvailable now slotInfo userId w) = Inr [(''available'', Bool True)]"
proof (rule unmatched_slot_is_available[OF assms(1-7)])
  show "\<forall>x \<in> set (sessions w).
           mentorId x = mId \<and> date x = dateStr \<and> overlap_query sTime eTime x \<longrightarrow>
           status x = RESERVED \<and> (\<exists>t. reservationExpires x = Some t \<and> t \<le> now)"
  proof (intro ballI impI)
    fix x
    assume x: "x \<in> set (sessions w)"
      and m: "mentorId x = mId \<and> date x = dateStr \<and> overlap_query sTime eTime x"
    from x m assms(9) have "startTime x < endTime x" by blast
    with m assms(8) have "ranges_overlap (startTime x) (endTime x) sTime eTime"
      by (simp add: matched_proper_ranges_overlap)
    with x m assms(10)
    show "status x = RESERVED \<and> (\<exists>t. reservationExpires x = Some t \<and> t \<le> now)"
      by blast
  qed
qed

theorem expired_reservation_never_blocks_on_ranges_witness:
  "''11:00'' < ''12:00''
   \<and> ranges_overlap (startTime slot_lapsed) (endTime slot_lapsed) ''11:00'' ''12:00''
   \<and> status slot_lapsed = RESERVED \<and> reservationExpires slot_lapsed = Some 500
   \<and> (500::int) \<le> 1000
   \<and> fst (isSessionAvailable 1000 ''m1_2025-03-01_11:00_12:00'' None example_world)
       = Inr [(''available'', Bool True)]"
  using expired_reservation_never_blocks_on_ranges
      [of example_world "''m1_2025-03-01_11:00_12:00''"
        "''m1''" "''2025-03-01''" "''11:00''" "''12:00''" "[]" 1000 None]
  by (simp add: examples ranges_overlap_def)

text \<open>
  Claim C2 as stated, for every state and every requested slot, fails where a range holds no
  instant. Asked at 1000 for the slot that starts and ends at ten, no stored session shares
  an instant with it, so every overlapping session is an expired hold, there being none;
  yet the query matches the confirmed booking from ten to eleven and the check answers that
  the slot is already booked. The same happens for the slot from nine to ten against a
  collection whose one record, confirmed, runs from twelve back to eight.
\<close>

theorem expired_reservation_counterexample:
  "sessions example_world = [slot_live, slot_booked, slot_lapsed]
   \<and> \<not> ranges_overlap (startTime slot_live) (endTime slot_live) ''10:00'' ''10:00''
   \<and> \<not> ranges_overlap (startTime slot_booked) (endTime slot_booked) ''10:00'' ''10:00''
   \<and> \<not> ranges_overlap (startTime slot_lapsed) (endTime slot_lapsed) ''10:00'' ''10:00''
   \<and> fst (isSessionAvailable 1000 ''m1_2025-03-01_10:00_10:00'' None example_world) =
       Inr [(''available'', Bool False), (''reason'', Str ''This time slot is already booked'')]
   \<and> sessions reversed_world = [slot_reversed]
   \<and> \<not> ranges_overlap (startTime slot_reversed) (endTime slot_reversed) ''09:00'' ''10:00''
   \<and> fst (isSessionAvailable 1000 ''m1_2025-03-01_09:00_10:00'' None reversed_world) =
       Inr [(''available'', Bool False), (''reason'', Str ''This time slot is already booked'')]"
  by (simp add: isSessionAvailable_def availability_body_def try_catch_def await_def
      connectDB_def Session_find_def return_js_def logged_def element_def verdict_def
      conflict_query_def overlap_query_def ranges_overlap_def blocking_status_def examples
      slot_reversed_def reversed_world_def)

section \<open>The sweep of expired holds\<close>

text \<open>
  The sweep deletes by \<open>_id\<close>. The store keeps the \<open>_id\<close> of a collection unique, so
  within it an id names the documents the first query matched and no others.
\<close>

lemma id_of_matching:
  assumes "distinct (map session_id xs)" and "x \<in> set xs"
  shows "session_id x \<in> set (map session_id (filter P xs)) \<longleftrightarrow> P x"
proof
  have inj: "inj_on session_id (set xs)" using assms(1) by (simp add: distinct_map)
  assume "session_id x \<in> set (map session_id (filter P xs))"
  then obtain y where "y \<in> set xs" "P y" "session_id y = session_id x" by auto
  with inj assms(2) show "P x" by (auto dest: inj_onD)
next
  assume "P x"
  with assms(2) show "session_id x \<in> set (map session_id (filter P xs))" by auto
qed

lemma delete_by_ids:
  assumes "distinct (map session_id xs)"
  shows "filter (\<lambda>x. \<not> session_id x \<in> set (map session_id (filter P xs))) xs
           = filter (\<lambda>x. \<not> P x) xs"
  by (rule filter_cong[OF refl]) (simp only: id_of_matching[OF assms])

lemma count_by_ids:
  assumes "distinct (map session_id xs)"
  shows "filter (\<lambda>x. session_id x \<in> set (map session_id (filter P xs))) xs = filter P xs"
  by (rule filter_cong[OF refl]) (simp only: id_of_matching[OF assms])

lemma cleanup_run:
  assumes "connect_fault w = None" and "find_fault w = None" and "delete_fault w = None"
    and "distinct (map session_id (sessions w))"
  shows "cleanupExpiredReservations now w =
     (Inr [(''success'', Bool True),
           (''deletedCount'', Num (int (length (filter (expired_reservation now) (sessions w))))),
           (''totalProcessed'', Num (int (length (filter (expired_reservation now) (sessions w)))))],
      w\<lparr>sessions := filter (\<lambda>x. \<not> expired_reservation now x) (sessions w),
        calls := calls w @ (if filter (expired_reservation now) (sessions w) = []
                            then [Connect, Find] else [Connect, Find, DeleteMany])\<rparr>)"
proof (cases "filter (expired_reservation now) (sessions w) = []")
  case True
  then have "filter (\<lambda>x. \<not> expired_reservation now x) (sessions w) = sessions w"
    by (simp add: filter_empty_conv)
  with True assms show ?thesis
    by (simp add: cleanupExpiredReservations_def cleanup_body_def try_catch_def await_def
      connectDB_def Session_find_def return_js_def logged_def)
next
  case False
  with assms show ?thesis
    using delete_by_ids[OF assms(4), of "expired_reservation now"]
      count_by_ids[OF assms(4), of "expired_reservation now"]
    by (simp add: cleanupExpiredReservations_def cleanup_body_def try_catch_def await_def
      connectDB_def Session_find_def Session_deleteMany_def return_js_def logged_def or_zero_def)
qed

lemma expired_reservation_iff:
  "expired_reservation now x \<longleftrightarrow>
     status x = RESERVED \<and> (\<exists>t. reservationExpires x = Some t \<and> t < now)"
  by (auto simp: expired_reservation_def split: option.splits)

text \<open>
  Claim C5. When the store answers and its ids are unique, the collection after
  \<open>cleanupExpiredReservations\<close> is the collection before it without the records whose status
  is reserved and whose expiry is strictly before the clock: exactly those are deleted, and
  every other record (confirmed, or a hold whose expiry has not passed, or one without an
  expiry) stays as it was and where it was. The returned \<open>deletedCount\<close> is the number of
  those expired holds, which is the number of records the collection lost.
\<close>

theorem cleanup_deletes_exactly_expired_holds:
  assumes "connect_fault w = None" and "find_fault w = None" and "delete_fault w = None"
    and "distinct (map session_id (sessions w))"
  shows "sessions (snd (cleanupExpiredReservations now w)) =
           filter (\<lambda>x. \<not> (status x = RESERVED \<and> (\<exists>t. reservationExpires x = Some t \<and> t < now)))
             (sessions w)
         \<and> (\<exists>obj n. fst (cleanupExpiredReservations now w) = Inr obj
              \<and> field obj ''success'' = Some (Bool True)
              \<and> field obj ''deletedCount'' = Some (Num (int n))
              \<and> n = length (filter (\<lambda>x. status x = RESERVED
                                      \<and> (\<exists>t. reservationExpires x = Some t \<and> t < now)) (sessions w))
              \<and> length (sessions (snd (cleanupExpiredReservations now w))) + n
                  = length (sessions w))"
proof -
  let ?E = "\<lambda>x. status x = RESERVED \<and> (\<exists>t. reservationExpires x = Some t \<and> t < now)"
  have eq: "expired_reservation now = ?E"
    by (rule ext) (rule expired_reservation_iff)
  have len: "length (filter (\<lambda>x. \<not> ?E x) (sessions w)) + length (filter ?E (sessions w))
      = length (sessions w)"
    using sum_length_filter_compl[of ?E "sessions w"] by (simp only: add.commute)
  show ?thesis
    unfolding cleanup_run[OF assms] eq using len by (simp add: field_def)
qed

theorem cleanup_deletes_exactly_expired_holds_witness:
  "distinct (map session_id (sessions example_world))
   \<and> sessions (snd (cleanupExpiredReservations 1000 example_world)) = [slot_live, slot_booked]
   \<and> (\<exists>obj. fst (cleanupExpiredReservations 1000 example_world) = Inr obj
        \<and> field obj ''deletedCount'' = Some (Num 1))"
proof -
  have h: "distinct (map session_id (sessions example_world))" by (simp add: examples)
  have f: "connect_fault example_world = None" "find_fault example_world = None"
     "delete_fault example_world = None" by (simp_all add: examples)
  show ?thesis
    using h cleanup_deletes_exactly_expired_holds [OF f h, of 1000]
    by (auto simp add: examples)
qed

section \<open>What the availability check answers\<close>

lemma availability_invalid_run:
  assumes "connect_fault w = None"
    and "falsy (element (split_underscore slotInfo) 0)
       \<or> falsy (element (split_underscore slotInfo) 1)
       \<or> falsy (element (split_underscore slotInfo) 2)
       \<or> falsy (element (split_underscore slotInfo) 3)"
  shows "isSessionAvailable now slotInfo userId w =
           (Inr invalid_slot, w\<lparr>calls := calls w @ [Connect]\<rparr>)"
  using assms
  by (auto simp add: isSessionAvailable_def availability_body_def try_catch_def await_def
      connectDB_def return_js_def logged_def Let_def split: option.splits)

lemma availability_cases:
  "fst (isSessionAvailable now slotInfo userId w) =
       Inr [(''available'', Bool False), (''reason'', Str ''Error checking availability'')]
   \<or> fst (isSessionAvailable now slotInfo userId w) = Inr invalid_slot
   \<or> (\<exists>xs. fst (isSessionAvailable now slotInfo userId w) = Inr (verdict userId xs))"
  by (auto simp add: isSessionAvailable_def availability_body_def try_catch_def await_def
      connectDB_def Session_find_def return_js_def logged_def Let_def split: option.splits)

lemma availability_world:
  "\<exists>cs. snd (isSessionAvailable now slotInfo userId w) = w\<lparr>calls := calls w @ cs\<rparr>
      \<and> (cs = [Connect] \<or> cs = [Connect, Find])"
  by (auto simp add: isSessionAvailable_def availability_body_def try_catch_def await_def
      connectDB_def Session_find_def return_js_def logged_def Let_def split: option.splits)

lemma verdict_reason:
  "field (verdict userId xs) ''available'' = Some (Bool False) \<Longrightarrow>
     \<exists>r. field (verdict userId xs) ''reason'' = Some (Str r) \<and> r \<noteq> []"
  by (auto simp add: verdict_def field_def split: if_splits list.splits option.splits)

lemma conflict_not_confirmed:
  "conflict_query mId dateStr sTime eTime now x \<Longrightarrow> status x \<noteq> CONFIRMED \<Longrightarrow>
     status x = RESERVED \<and> (\<exists>t. reservationExpires x = Some t \<and> now < t)"
  by (auto simp: conflict_query_def blocking_status_def split: option.splits)

lemma verdict_reserved_only:
  assumes "\<forall>x \<in> set (first # others). status x = RESERVED"
  shows "verdict userId (first # others) =
     (case userReservedSession userId (first # others) of
        Some own \<Rightarrow>
          [(''available'', Bool True), (''reservedForCurrentUser'', Bool True),
           (''reservationExpires'', date_value (reservationExpires own))]
      | None \<Rightarrow>
          [(''available'', Bool False),
           (''reason'', Str ''This time slot is temporarily reserved''),
           (''expiresAt'', date_value (reservationExpires first))])"
proof -
  have c: "filter (\<lambda>x. status x = CONFIRMED) (first # others) = []"
    using assms by (auto simp: filter_empty_conv)
  have r: "filter (\<lambda>x. status x = RESERVED) (first # others) = first # others"
    using assms by (simp add: filter_id_conv)
  show ?thesis
    unfolding verdict_def c r by simp
qed


lemma availability_unreachable_run:
  assumes "connect_fault w = Some err"
  shows "isSessionAvailable now slotInfo userId w =
           (Inr [(''available'', Bool False), (''reason'', Str ''Error checking availability'')],
            w\<lparr>calls := calls w @ [Connect]\<rparr>)"
  using assms
  by (simp add: isSessionAvailable_def availability_body_def try_catch_def await_def
      connectDB_def logged_def)

text \<open>
  Claim C6, as amended. For every descriptor in which one of the four pieces between
  underscores (mentor, date, start, end) is missing or empty, \<open>isSessionAvailable\<close> does not
  query the sessions: the only call it makes to the store is the connect, which it awaits
  before the parse, and the collection is left as it was. When that connect does not throw
  it returns \<open>{ available: false, reason: "Invalid slot information" }\<close>; when it throws it
  returns \<open>{ available: false, reason: "Error checking availability" }\<close>.
\<close>

theorem invalid_slot_rejected_without_query:
  assumes "falsy (element (split_underscore slotInfo) 0)
       \<or> falsy (element (split_underscore slotInfo) 1)
       \<or> falsy (element (split_underscore slotInfo) 2)
       \<or> falsy (element (split_underscore slotInfo) 3)"
  shows "(connect_fault w = None \<longrightarrow>
            fst (isSessionAvailable now slotInfo userId w) =
              Inr [(''available'', Bool False), (''reason'', Str ''Invalid slot information'')])
         \<and> (connect_fault w \<noteq> None \<longrightarrow>
            fst (isSessionAvailable now slotInfo userId w) =
              Inr [(''available'', Bool False), (''reason'', Str ''Error checking availability'')])
         \<and> calls (snd (isSessionAvailable now slotInfo userId w)) = calls w @ [Connect]
         \<and> sessions (snd (isSessionAvailable now slotInfo userId w)) = sessions w"
proof (cases "connect_fault w")
  case None
  then show ?thesis
    by (simp add: availability_invalid_run[OF None assms] invalid_slot_def)
next
  case (Some err)
  then show ?thesis
    by (simp add: availability_unreachable_run[OF Some])
qed

theorem invalid_slot_rejected_without_query_witness:
  "falsy (element (split_underscore ''m1_2025-03-01_09:00'') 3)
   \<and> connect_fault example_world = None
   \<and> fst (isSessionAvailable 1000 ''m1_2025-03-01_09:00'' None example_world) =
       Inr [(''available'', Bool False), (''reason'', Str ''Invalid slot information'')]
   \<and> calls (snd (isSessionAvailable 1000 ''m1_2025-03-01_09:00'' None example_world)) = [Connect]
   \<and> connect_fault offline_world \<noteq> None
   \<and> fst (isSessionAvailable 1000 ''m1_2025-03-01_09:00'' None offline_world) =
       Inr [(''available'', Bool False), (''reason'', Str ''Error checking availability'')]
   \<and> calls (snd (isSessionAvailable 1000 ''m1_2025-03-01_09:00'' None offline_world)) = [Connect]"
proof -
  have h: "falsy (element (split_underscore ''m1_2025-03-01_09:00'') 3)"
    by (simp add: element_def)
  note inv = invalid_slot_rejected_without_query [OF disjI2[OF disjI2[OF disjI2[OF h]]]]
  show ?thesis
    using h inv [of example_world 1000 None] inv [of offline_world 1000 None]
    by (simp add: example_world_def offline_world_def)
qed

text \<open>
  Claim C6 as stated, for every such descriptor, fails when the store cannot be reached: the
  connect is awaited before the descriptor is parsed, so a descriptor without its end time
  comes back with the reason of the catch block, not with "Invalid slot information".
\<close>

theorem invalid_slot_counterexample:
  "falsy (element (split_underscore ''m1_2025-03-01_09:00'') 3)
   \<and> fst (isSessionAvailable 1000 ''m1_2025-03-01_09:00'' None offline_world) =
       Inr [(''available'', Bool False), (''reason'', Str ''Error checking availability'')]
   \<and> Str ''Error checking availability'' \<noteq> Str ''Invalid slot information''"
  by (simp add: isSessionAvailable_def availability_body_def try_catch_def await_def
      connectDB_def logged_def element_def offline_world_def example_world_def)

text \<open>
  Claim C7. Whenever \<open>isSessionAvailable\<close> answers \<open>available: false\<close>, the answer carries
  a non-empty \<open>reason\<close>. And whenever what stands in the way is a live hold of another user
  (the query returns sessions, none of them confirmed, and none of them the caller's own),
  the answer carries as \<open>expiresAt\<close> the expiry of the first hold the query returned, an
  instant after the clock.
\<close>

theorem unavailable_carries_reason_and_expiry:
  "(\<forall>obj. fst (isSessionAvailable now slotInfo userId w) = Inr obj
          \<and> field obj ''available'' = Some (Bool False)
        \<longrightarrow> (\<exists>r. field obj ''reason'' = Some (Str r) \<and> r \<noteq> []))
   \<and> (connect_fault w = None \<and> find_fault w = None
       \<and> split_underscore slotInfo = mId # dateStr # sTime # eTime # rest
       \<and> mId \<noteq> [] \<and> dateStr \<noteq> [] \<and> sTime \<noteq> [] \<and> eTime \<noteq> []
       \<and> filter (conflict_query mId dateStr sTime eTime now) (sessions w) = first # others
       \<and> (\<forall>x \<in> set (first # others). status x \<noteq> CONFIRMED)
       \<and> (\<forall>u. userId = Some u \<and> u \<noteq> [] \<longrightarrow> (\<forall>x \<in> set (first # others). menteeId x \<noteq> u))
      \<longrightarrow> (\<exists>t. status first = RESERVED \<and> reservationExpires first = Some t \<and> now < t
             \<and> fst (isSessionAvailable now slotInfo userId w) =
                 Inr [(''available'', Bool False),
                      (''reason'', Str ''This time slot is temporarily reserved''),
                      (''expiresAt'', Date t)]))"
proof (intro conjI allI impI)
  fix obj
  assume a: "fst (isSessionAvailable now slotInfo userId w) = Inr obj
          \<and> field obj ''available'' = Some (Bool False)"
  from availability_cases[of now slotInfo userId w]
  consider (err) "obj = [(''available'', Bool False), (''reason'', Str ''Error checking availability'')]"
    | (inv) "obj = invalid_slot"
    | (ver) xs where "obj = verdict userId xs"
    using a by auto
  then show "\<exists>r. field obj ''reason'' = Some (Str r) \<and> r \<noteq> []"
  proof cases
    case err then show ?thesis by (simp add: field_def)
  next
    case inv then show ?thesis by (simp add: field_def invalid_slot_def)
  next
    case ver with a show ?thesis using verdict_reason[of userId xs] by simp
  qed
next
  assume h: "connect_fault w = None \<and> find_fault w = None
       \<and> split_underscore slotInfo = mId # dateStr # sTime # eTime # rest
       \<and> mId \<noteq> [] \<and> dateStr \<noteq> [] \<and> sTime \<noteq> [] \<and> eTime \<noteq> []
       \<and> filter (conflict_query mId dateStr sTime eTime now) (sessions w) = first # others
       \<and> (\<forall>x \<in> set (first # others). status x \<noteq> CONFIRMED)
       \<and> (\<forall>u. userId = Some u \<and> u \<noteq> [] \<longrightarrow> (\<forall>x \<in> set (first # others). menteeId x \<noteq> u))"
  let ?ex = "filter (conflict_query mId dateStr sTime eTime now) (sessions w)"
  have run: "fst (isSessionAvailable now slotInfo userId w) = Inr (verdict userId (first # others))"
    using h availability_run[of w slotInfo mId dateStr sTime eTime rest now userId] by simp
  have mem: "\<forall>x \<in> set (first # others). conflict_query mId dateStr sTime eTime now x"
  proof
    fix x assume "x \<in> set (first # others)"
    then have "x \<in> set ?ex" using h by simp
    then show "conflict_query mId dateStr sTime eTime now x" by simp
  qed
  have live: "\<forall>x \<in> set (first # others).
      status x = RESERVED \<and> (\<exists>t. reservationExpires x = Some t \<and> now < t)"
  proof
    fix x assume x: "x \<in> set (first # others)"
    with mem have "conflict_query mId dateStr sTime eTime now x" by blast
    moreover from h x have "status x \<noteq> CONFIRMED" by blast
    ultimately show "status x = RESERVED \<and> (\<exists>t. reservationExpires x = Some t \<and> now < t)"
      by (rule conflict_not_confirmed)
  qed
  then obtain t where t: "status first = RESERVED" "reservationExpires first = Some t" "now < t"
    by auto
  have none: "userReservedSession userId (first # others) = None"
  proof (cases userId)
    case None then show ?thesis by simp
  next
    case (Some u)
    show ?thesis
    proof (cases "u = []")
      case True with Some show ?thesis by simp
    next
      case False
      with Some h have "\<forall>x \<in> set (first # others). menteeId x \<noteq> u" by blast
      then have "find (\<lambda>x. menteeId x = u) (first # others) = None"
        unfolding find_None_iff by blast
      with Some False show ?thesis by simp
    qed
  qed
  have "verdict userId (first # others) =
      [(''available'', Bool False), (''reason'', Str ''This time slot is temporarily reserved''),
       (''expiresAt'', Date t)]"
    using live t none by (simp add: verdict_reserved_only)
  with run t
  show "\<exists>t. status first = RESERVED \<and> reservationExpires first = Some t \<and> now < t
             \<and> fst (isSessionAvailable now slotInfo userId w) =
                 Inr [(''available'', Bool False),
                      (''reason'', Str ''This time slot is temporarily reserved''),
                      (''expiresAt'', Date t)]"
    by simp
qed

theorem unavailable_carries_reason_and_expiry_witness:
  "filter (conflict_query ''m1'' ''2025-03-01'' ''09:00'' ''10:00'' 1000) (sessions example_world)
     = [slot_live]
   \<and> fst (isSessionAvailable 1000 ''m1_2025-03-01_09:00_10:00'' (Some ''u9'') example_world) =
       Inr [(''available'', Bool False),
            (''reason'', Str ''This time slot is temporarily reserved''),
            (''expiresAt'', Date 2000)]
   \<and> field [(''available'', Bool False),
            (''reason'', Str ''This time slot is temporarily reserved''),
            (''expiresAt'', Date 2000)] ''reason''
       = Some (Str ''This time slot is temporarily reserved'')"
  using unavailable_carries_reason_and_expiry [of 1000 "''m1_2025-03-01_09:00_10:00''"
      "Some ''u9''" example_world "''m1''" "''2025-03-01''" "''09:00''" "''10:00''" "[]"
      slot_live "[]"]
  by (simp add: examples conflict_query_def overlap_query_def blocking_status_def field_def)

section \<open>Errors at the boundary\<close>

lemma try_catch_fulfils: "\<exists>v. fst (try_catch body handler w) = Inr v"
  by (auto simp add: try_catch_def split: prod.splits sum.splits)

lemma try_catch_caught:
  "fst (body w) = Inl err \<Longrightarrow> fst (try_catch body handler w) = Inr (handler err)"
  by (auto simp add: try_catch_def split: prod.splits sum.splits)

lemma offline_throws:
  "fst (cleanup_body now offline_world) = Inl (Error ''connection refused'')"
  "fst (availability_body now slotInfo userId offline_world) = Inl (Error ''connection refused'')"
  by (simp_all add: cleanup_body_def availability_body_def await_def connectDB_def
      offline_world_def example_world_def)

text \<open>
  Claim C8, as amended. Neither action ever throws to its caller: each returns an object,
  whatever the store does. An error thrown inside \<open>cleanupExpiredReservations\<close> comes back as
  \<open>{ success: false, error }\<close>, the flag and the caught error itself;
  an error thrown inside \<open>isSessionAvailable\<close> comes back as
  \<open>{ available: false, reason: "Error checking availability" }\<close>.
\<close>

theorem errors_caught_at_boundary:
  "(\<exists>obj. fst (cleanupExpiredReservations now w) = Inr obj)
   \<and> (\<exists>obj. fst (isSessionAvailable now slotInfo userId w) = Inr obj)
   \<and> (\<forall>err. fst (cleanup_body now w) = Inl err \<longrightarrow>
         fst (cleanupExpiredReservations now w) =
           Inr [(''success'', Bool False), (''error'', Err err)])
   \<and> (\<forall>err. fst (availability_body now slotInfo userId w) = Inl err \<longrightarrow>
         fst (isSessionAvailable now slotInfo userId w) =
           Inr [(''available'', Bool False), (''reason'', Str ''Error checking availability'')])"
  unfolding cleanupExpiredReservations_def isSessionAvailable_def
  by (simp add: try_catch_fulfils try_catch_caught)

theorem errors_caught_at_boundary_witness:
  "fst (cleanup_body 1000 offline_world) = Inl (Error ''connection refused'')
   \<and> fst (cleanupExpiredReservations 1000 offline_world) =
       Inr [(''success'', Bool False), (''error'', Err (Error ''connection refused''))]
   \<and> fst (availability_body 1000 ''m1_2025-03-01_09:00_10:00'' None offline_world)
       = Inl (Error ''connection refused'')
   \<and> fst (isSessionAvailable 1000 ''m1_2025-03-01_09:00_10:00'' None offline_world) =
       Inr [(''available'', Bool False), (''reason'', Str ''Error checking availability'')]"
  using errors_caught_at_boundary [of 1000 offline_world "''m1_2025-03-01_09:00_10:00''" None]
    offline_throws
  by simp

text \<open>
  Claim C8 as stated has both results carry a success flag and a human-readable reason.
  With the store unreachable, the object \<open>cleanupExpiredReservations\<close> returns has no
  \<open>reason\<close>, only the caught error, and the object \<open>isSessionAvailable\<close> returns has no
  \<open>success\<close>, its flag being \<open>available\<close>.
\<close>

theorem error_result_counterexample:
  "fst (cleanupExpiredReservations 1000 offline_world) =
       Inr [(''success'', Bool False), (''error'', Err (Error ''connection refused''))]
   \<and> field [(''success'', Bool False), (''error'', Err (Error ''connection refused''))] ''reason''
       = None
   \<and> fst (isSessionAvailable 1000 ''m1_2025-03-01_09:00_10:00'' None offline_world) =
       Inr [(''available'', Bool False), (''reason'', Str ''Error checking availability'')]
   \<and> field [(''available'', Bool False), (''reason'', Str ''Error checking availability'')]
       ''success'' = None"
  by (simp add: cleanupExpiredReservations_def isSessionAvailable_def try_catch_def
      cleanup_body_def availability_body_def await_def connectDB_def
      offline_world_def example_world_def field_def)

section \<open>The caller's own hold\<close>




section \<open>The availability check does not write\<close>

text \<open>
  Claim C10. For every input and every state of the store, \<open>isSessionAvailable\<close> leaves the
  collection as it found it: the only calls it makes are the connect and, at most, one
  query, so no record is inserted, updated or deleted, and an expired hold that was there
  before the check is there after it.
\<close>

theorem availability_check_is_read_only:
  "sessions (snd (isSessionAvailable now slotInfo userId w)) = sessions w
   \<and> (\<exists>cs. calls (snd (isSessionAvailable now slotInfo userId w)) = calls w @ cs
         \<and> (cs = [Connect] \<or> cs = [Connect, Find]))"
  using availability_world[of now slotInfo userId w] by auto

theorem availability_check_is_read_only_witness:
  "sessions (snd (isSessionAvailable 1000 ''m1_2025-03-01_11:00_12:00'' None example_world))
     = [slot_live, slot_booked, slot_lapsed]
   \<and> expired_reservation 1000 slot_lapsed"
  using availability_check_is_read_only [of 1000 "''m1_2025-03-01_11:00_12:00''" None example_world]
  by (simp add: example_world_def expired_reservation_def slot_lapsed_def)

end
